theory Spec2Isabelle
  imports Complex_Main "HOL-Library.Monad_Syntax" "HOL-Library.Log_Nat"
begin

section \<open>AQI classification: \<^verbatim>\<open>get_aqi_status\<close> (api_server.py)\<close>

text \<open>
  An AQI score is a Python float. The score is compared only with the integer constants
  50, 100, 150, 200 and 300, and on finite floats those comparisons agree with the
  comparisons of the reals they denote, so a score is a \<^typ>\<open>real\<close> here. The values
  \<^verbatim>\<open>nan\<close> and \<^verbatim>\<open>inf\<close> are not reals and are outside the model.

  The six status literals of the source end in an emoji. A \<^typ>\<open>string\<close> is a list of
  8-bit characters, so each literal is written as the UTF-8 bytes of the source file.
\<close>

definition status_good :: string where
  "status_good = ''Good '' @ [CHR 0xF0, CHR 0x9F, CHR 0x98, CHR 0x8A]"

definition status_moderate :: string where
  "status_moderate = ''Moderate '' @ [CHR 0xF0, CHR 0x9F, CHR 0x98, CHR 0x90]"

definition status_sensitive :: string where
  "status_sensitive =
     ''Unhealthy for Sensitive Groups '' @ [CHR 0xF0, CHR 0x9F, CHR 0x98, CHR 0xB7]"

definition status_unhealthy :: string where
  "status_unhealthy = ''Unhealthy '' @ [CHR 0xF0, CHR 0x9F, CHR 0x98, CHR 0x9E]"

definition status_very_unhealthy :: string where
  "status_very_unhealthy = ''Very Unhealthy '' @ [CHR 0xF0, CHR 0x9F, CHR 0x98, CHR 0xA8]"

definition status_hazardous :: string where
  "status_hazardous =
     ''Hazardous '' @ [CHR 0xE2, CHR 0x98, CHR 0xA0, CHR 0xEF, CHR 0xB8, CHR 0x8F]"

definition get_aqi_status :: "real \<Rightarrow> string" where
  "get_aqi_status aqi =
     (if aqi \<le> 50 then status_good
      else if aqi \<le> 100 then status_moderate
      else if aqi \<le> 150 then status_sensitive
      else if aqi \<le> 200 then status_unhealthy
      else if aqi \<le> 300 then status_very_unhealthy
      else status_hazardous)"

section \<open>Python values\<close>

text \<open>
  The body of the provider's reply is whatever \<^verbatim>\<open>response.json()\<close> returns, and the
  handlers answer with Python dictionaries that the framework serialises. Both are values
  of one type: \<^verbatim>\<open>None\<close>, a boolean, a number, a string, a list, or a dictionary with
  string keys (an association list in insertion order, looked up with \<^const>\<open>map_of\<close>).
  Python's \<^verbatim>\<open>int\<close> and \<^verbatim>\<open>float\<close> are one constructor, since \<^verbatim>\<open>0 == 0.0\<close> there.
\<close>

datatype pyval =
    PNone
  | PBool bool
  | PNum real
  | PStr string
  | PList "pyval list"
  | PDict "(string \<times> pyval) list"

text \<open>Truth-value testing, as \<^verbatim>\<open>x if v else y\<close> applies it to \<^verbatim>\<open>v\<close>.\<close>

fun truthy :: "pyval \<Rightarrow> bool" where
  "truthy PNone = False"
| "truthy (PBool b) = b"
| "truthy (PNum x) = (x \<noteq> 0)"
| "truthy (PStr s) = (s \<noteq> [])"
| "truthy (PList xs) = (xs \<noteq> [])"
| "truthy (PDict kvs) = (kvs \<noteq> [])"

text \<open>
  \<^verbatim>\<open>v[k]\<close> for a string key \<^verbatim>\<open>k\<close>: the entry of a dictionary that has the key.
  A missing key raises KeyError and every other kind of value raises TypeError;
  \<open>None\<close> stands for the raise.
\<close>

fun subscript :: "pyval \<Rightarrow> string \<Rightarrow> pyval option" where
  "subscript (PDict kvs) k = map_of kvs k"
| "subscript _ k = None"

text \<open>
  The last code point of a non-empty string in UTF-8: its last byte together with the
  continuation bytes (\<open>0x80\<close> to \<open>0xBF\<close>) that end the string.
\<close>

definition last_code_point :: "string \<Rightarrow> string" where
  "last_code_point s =
     (let k = length (takeWhile (\<lambda>c. 0x80 \<le> (of_char c :: nat) \<and> (of_char c :: nat) < 0xC0) (rev s))
      in drop (length s - Suc k) s)"

text \<open>
  \<^verbatim>\<open>v[-1]\<close>: the last element of a non-empty list, the last character of a non-empty
  string. An empty sequence raises IndexError, a dictionary raises KeyError (its keys are
  strings), any other value raises TypeError.
\<close>

fun subscript_last :: "pyval \<Rightarrow> pyval option" where
  "subscript_last (PList xs) = (if xs = [] then None else Some (last xs))"
| "subscript_last (PStr s) = (if s = [] then None else Some (PStr (last_code_point s)))"
| "subscript_last _ = None"

section \<open>The live reading: \<^verbatim>\<open>fetch_live_data\<close> (api_server.py)\<close>

text \<open>
  What the provider answers to \<^verbatim>\<open>requests.get(url, timeout=10)\<close> is the input of the
  model: either the call raises (a timeout, a refused connection, any transport error),
  or it returns a response with a status code and a body. The body is \<open>None\<close> when
  \<^verbatim>\<open>response.json()\<close> raises on it (empty, or not JSON) and the parsed value otherwise.
  The coordinates only shape the URL. Printing is not modelled.
\<close>

datatype http_outcome =
    Transport_Error
  | Response nat "pyval option"

text \<open>
  \<^verbatim>\<open>response.raise_for_status()\<close> of the requests library raises HTTPError for a client
  error (status 400 to 499) and for a server error (500 to 599), and for no other status.
\<close>

definition raise_for_status :: "nat \<Rightarrow> bool" where
  "raise_for_status status_code = (400 \<le> status_code \<and> status_code < 600)"

type_synonym reading = "(string \<times> pyval) list"

text \<open>The expression \<^verbatim>\<open>series[-1] if series else 0\<close>, written six times in the source.\<close>

definition latest_value :: "pyval \<Rightarrow> pyval option" where
  "latest_value series = (if truthy series then subscript_last series else Some (PNum 0))"

text \<open>The body of the \<^verbatim>\<open>try\<close> block; \<open>None\<close> when any statement of it raises.\<close>

definition fetch_live_data_try :: "http_outcome \<Rightarrow> reading option" where
  "fetch_live_data_try outcome =
     (case outcome of
        Transport_Error \<Rightarrow> None
      | Response status_code body \<Rightarrow>
          if raise_for_status status_code then None
          else do {
            data \<leftarrow> body;
            hourly \<leftarrow> subscript data ''hourly'';
            pm2_5 \<leftarrow> subscript hourly ''pm2_5'' \<bind> latest_value;
            pm10 \<leftarrow> subscript hourly ''pm10'' \<bind> latest_value;
            no2 \<leftarrow> subscript hourly ''nitrogen_dioxide'' \<bind> latest_value;
            so2 \<leftarrow> subscript hourly ''sulphur_dioxide'' \<bind> latest_value;
            co \<leftarrow> subscript hourly ''carbon_monoxide'' \<bind> latest_value;
            o3 \<leftarrow> subscript hourly ''ozone'' \<bind> latest_value;
            Some [(''pm2_5'', pm2_5), (''pm10'', pm10), (''no2'', no2), (''so2'', so2),
                  (''co'', co), (''o3'', o3), (''nh3'', PNum 0)]
          })"

definition fallback_reading :: reading where
  "fallback_reading =
     [(''pm2_5'', PNum 25), (''pm10'', PNum 45), (''no2'', PNum 12), (''so2'', PNum 5),
      (''co'', PNum 0.5), (''o3'', PNum 45), (''nh3'', PNum 0)]"

text \<open>\<^verbatim>\<open>except Exception\<close> catches every raise of the block and returns the sample data.\<close>

definition fetch_live_data :: "http_outcome \<Rightarrow> reading" where
  "fetch_live_data outcome =
     (case fetch_live_data_try outcome of
        Some latest \<Rightarrow> latest
      | None \<Rightarrow> fallback_reading)"

text \<open>
  A reply of the provider in the shape the code expects, for use in examples: an object
  whose \<^verbatim>\<open>hourly\<close> member holds one series per requested pollutant.
\<close>

definition example_body :: pyval where
  "example_body = PDict
     [(''latitude'', PNum 28.6), (''longitude'', PNum 77.2),
      (''hourly'', PDict
         [(''time'', PList [PStr ''2024-01-01T00:00'', PStr ''2024-01-01T01:00'']),
          (''pm10'', PList [PNum 18, PNum 20]),
          (''pm2_5'', PList [PNum 9, PNum 10]),
          (''nitrogen_dioxide'', PList [PNum 14, PNum 15]),
          (''sulphur_dioxide'', PList [PNum 4, PNum 5]),
          (''carbon_monoxide'', PList [PNum 0.4, PNum 0.5]),
          (''ozone'', PList [PNum 38, PNum 40])])]"

section \<open>Prediction endpoints: \<^verbatim>\<open>predict\<close> and \<^verbatim>\<open>predict_custom\<close> (api_server.py)\<close>

text \<open>
  The module global \<^verbatim>\<open>model\<close> is \<^verbatim>\<open>None\<close> when loading failed and otherwise the
  object \<^verbatim>\<open>joblib.load\<close> returned. Two things are observed of a loaded object. The first
  is its truth value (\<^verbatim>\<open>"healthy" if model else ...\<close>): Python takes it from the object's
  \<^verbatim>\<open>__bool__\<close> or \<^verbatim>\<open>__len__\<close>, an object that defines neither is true, and the test
  raises when the method raises (\<^verbatim>\<open>__len__\<close> of an ensemble that was never fitted).
  The second is \<^verbatim>\<open>model.predict(X)[0]\<close> on the one-row matrix
  \<^verbatim>\<open>X = np.array([[...]])\<close>: a function of the row that gives the score, or the message
  \<^verbatim>\<open>str(e)\<close> of the exception that building the array or predicting raised. The model
  is opaque: that function is a parameter. \<open>Model b f\<close> is an object with truth value
  \<open>b\<close>, \<open>Model_No_Truth msg f\<close> one whose truth test raises with message \<open>msg\<close>.
\<close>

datatype model_obj =
    Model bool "pyval list \<Rightarrow> string + real"
  | Model_No_Truth string "pyval list \<Rightarrow> string + real"

fun model_truth :: "model_obj \<Rightarrow> string + bool" where
  "model_truth (Model b f) = Inr b"
| "model_truth (Model_No_Truth msg f) = Inl msg"

fun model_predict :: "model_obj \<Rightarrow> pyval list \<Rightarrow> string + real" where
  "model_predict (Model b f) X = f X"
| "model_predict (Model_No_Truth msg f) X = f X"

text \<open>
  A handler ends in a reply, in an \<^verbatim>\<open>HTTPException\<close> that it raises itself, or in an
  exception that escapes it, which the framework answers with status 500.
\<close>

datatype error = HTTPException nat string | Unhandled string

text \<open>Sequencing of two steps of a \<^verbatim>\<open>try\<close> block: the first raise ends the block.\<close>

definition then_err :: "'e + 'a \<Rightarrow> ('a \<Rightarrow> 'e + 'b) \<Rightarrow> 'e + 'b" where
  "then_err r f = (case r of Inl e \<Rightarrow> Inl e | Inr v \<Rightarrow> f v)"

text \<open>
  \<^verbatim>\<open>data[k]\<close> on the reading; a missing key raises \<^verbatim>\<open>KeyError(k)\<close>, whose message is
  the key between single quotes.
\<close>

definition dict_get :: "reading \<Rightarrow> string \<Rightarrow> string + pyval" where
  "dict_get data k =
     (case map_of data k of
        None \<Rightarrow> Inl ([CHR 0x27] @ k @ [CHR 0x27])
      | Some v \<Rightarrow> Inr v)"

text \<open>The row of \<^verbatim>\<open>X\<close> that \<^verbatim>\<open>predict\<close> builds from the reading (lines 107 to 116).\<close>

definition predict_features :: "reading \<Rightarrow> string + pyval list" where
  "predict_features data =
     then_err (dict_get data ''pm2_5'') (\<lambda>pm2_5.
     then_err (dict_get data ''pm10'') (\<lambda>pm10.
     then_err (dict_get data ''no2'') (\<lambda>no2.
     then_err (dict_get data ''nh3'') (\<lambda>nh3.
     then_err (dict_get data ''co'') (\<lambda>co.
     then_err (dict_get data ''so2'') (\<lambda>so2.
     then_err (dict_get data ''o3'') (\<lambda>o3.
       Inr [pm2_5, pm10, PNum 0, no2, nh3, co, so2, o3])))))))"

text \<open>
  The score of a scikit-learn regressor is a numpy \<^verbatim>\<open>float64\<close>, and
  \<^verbatim>\<open>round(prediction, 2)\<close> on it is numpy's rounding: \<^verbatim>\<open>rint(x * 100) / 100\<close>, each
  operation in binary64 arithmetic. A finite double is the real number it denotes.

  \<open>round_half_even\<close> is \<^verbatim>\<open>rint\<close>: the nearest integer, a tie going to the even one.
  \<open>binade x\<close> is the exponent \<open>e\<close> with \<open>2 ^ e \<le> \<bar>x\<bar> < 2 ^ (e + 1)\<close>, for \<open>x\<close> other than 0.
  \<open>float64\<close> rounds a real to the nearest double, a tie going to the even significand:
  the unit of the last of the 53 bits is 52 binary places below the binade, and never
  below \<open>2 ^ -1074\<close>, the spacing of the subnormal numbers. Overflow is not modelled: where
  the hundredfold of a score is beyond the largest double the code computes \<^verbatim>\<open>inf\<close>,
  which is no real number.
\<close>

definition round_half_even :: "real \<Rightarrow> int" where
  "round_half_even x =
     (let f = \<lfloor>x\<rfloor>; d = x - of_int f
      in if d < 1 / 2 then f
         else if 1 / 2 < d then f + 1
         else if even f then f else f + 1)"

definition binade :: "real \<Rightarrow> int" where
  "binade x =
     (if 1 \<le> \<bar>x\<bar> then bitlen \<lfloor>\<bar>x\<bar>\<rfloor> - 1 else - bitlen (\<lceil>1 / \<bar>x\<bar>\<rceil> - 1))"

definition float64 :: "real \<Rightarrow> real" where
  "float64 x =
     (if x = 0 then 0
      else let e = max (binade x - 52) (- 1074)
           in of_int (round_half_even (x / 2 powi e)) * 2 powi e)"

definition round_float64 :: "real \<Rightarrow> nat \<Rightarrow> real" where
  "round_float64 x ndigits =
     float64 (of_int (round_half_even (float64 (x * 10 ^ ndigits))) / 10 ^ ndigits)"

text \<open>The \<^verbatim>\<open>try\<close> block of \<^verbatim>\<open>predict\<close>; \<open>Inl\<close> carries the message of the exception.\<close>

definition predict_try :: "model_obj \<Rightarrow> http_outcome \<Rightarrow> string + pyval" where
  "predict_try m outcome =
     (let data = fetch_live_data outcome in
      then_err (predict_features data) (\<lambda>X.
      then_err (model_predict m X) (\<lambda>prediction.
        Inr (PDict
          [(''AQI_Predicted'', PNum (round_float64 prediction 2)),
           (''status'', PStr (get_aqi_status prediction)),
           (''pollutants'', PDict data),
           (''location'', PStr ''Delhi, India''),
           (''timestamp'', PStr ''Live data'')]))))"

definition predict :: "model_obj option \<Rightarrow> http_outcome \<Rightarrow> error + pyval" where
  "predict model outcome =
     (case model of
        None \<Rightarrow> Inl (HTTPException 500 ''Model not loaded'')
      | Some m \<Rightarrow>
          (case predict_try m outcome of
             Inl e \<Rightarrow> Inl (HTTPException 500 (''Prediction error: '' @ e))
           | Inr result \<Rightarrow> Inr result))"

text \<open>
  The row of \<^verbatim>\<open>X\<close> that \<^verbatim>\<open>predict_custom\<close> builds from its parameters (lines 141 to
  143). The parameters are floats that the framework has parsed from the query string,
  \<^verbatim>\<open>nh3\<close> being 0.0 when the query leaves it out.
\<close>

definition predict_custom_features ::
  "real \<Rightarrow> real \<Rightarrow> real \<Rightarrow> real \<Rightarrow> real \<Rightarrow> real \<Rightarrow> real \<Rightarrow> pyval list" where
  "predict_custom_features pm25 pm10 no2 so2 co o3 nh3 =
     [PNum pm25, PNum 0, PNum no2, PNum nh3, PNum co, PNum so2, PNum o3, PNum pm10]"

definition predict_custom_try ::
  "model_obj \<Rightarrow> real \<Rightarrow> real \<Rightarrow> real \<Rightarrow> real \<Rightarrow> real \<Rightarrow> real \<Rightarrow> real \<Rightarrow> string + pyval" where
  "predict_custom_try m pm25 pm10 no2 so2 co o3 nh3 =
     (let X = predict_custom_features pm25 pm10 no2 so2 co o3 nh3 in
      then_err (model_predict m X) (\<lambda>prediction.
        Inr (PDict
          [(''AQI_Predicted'', PNum (round_float64 prediction 2)),
           (''status'', PStr (get_aqi_status prediction)),
           (''input_parameters'', PDict
              [(''PM2.5'', PNum pm25), (''PM10'', PNum pm10), (''NO2'', PNum no2),
               (''SO2'', PNum so2), (''CO'', PNum co), (''O3'', PNum o3),
               (''NH3'', PNum nh3)])])))"

definition predict_custom ::
  "model_obj option \<Rightarrow> real \<Rightarrow> real \<Rightarrow> real \<Rightarrow> real \<Rightarrow> real \<Rightarrow> real \<Rightarrow> real \<Rightarrow> error + pyval" where
  "predict_custom model pm25 pm10 no2 so2 co o3 nh3 =
     (case model of
        None \<Rightarrow> Inl (HTTPException 500 ''Model not loaded'')
      | Some m \<Rightarrow>
          (case predict_custom_try m pm25 pm10 no2 so2 co o3 nh3 of
             Inl e \<Rightarrow> Inl (HTTPException 500 (''Prediction error: '' @ e))
           | Inr result \<Rightarrow> Inr result))"

section \<open>The other endpoints: \<^verbatim>\<open>home\<close> and \<^verbatim>\<open>health_check\<close> (api_server.py)\<close>

definition home :: pyval where
  "home = PDict
     [(''message'', PStr ''Air Quality Prediction API is Running!''),
      (''endpoints'', PDict
         [(''health'', PStr ''/health''),
          (''predict'', PStr ''/predict''),
          (''predict_custom'',
             PStr ''/predict/custom?pm25=10&pm10=20&no2=15&so2=5&co=0.5&o3=40&nh3=0'')])]"

text \<open>
  The truth test of the global in \<^verbatim>\<open>"healthy" if model else "model_not_loaded"\<close>:
  \<^verbatim>\<open>None\<close> is false, a loaded object has the truth value of its own, or the test raises.
\<close>

definition truth_test :: "model_obj option \<Rightarrow> string + bool" where
  "truth_test model = (case model of None \<Rightarrow> Inr False | Some m \<Rightarrow> model_truth m)"

text \<open>
  \<^verbatim>\<open>status\<close> comes from the truth test and \<^verbatim>\<open>model_loaded\<close> from \<^verbatim>\<open>model is not None\<close>.
  Nothing in the handler catches an exception of the truth test.
\<close>

definition health_check :: "model_obj option \<Rightarrow> error + pyval" where
  "health_check model =
     (case truth_test model of
        Inl msg \<Rightarrow> Inl (Unhandled msg)
      | Inr t \<Rightarrow> Inr (PDict
          [(''status'', PStr (if t then ''healthy'' else ''model_not_loaded'')),
           (''model_loaded'', PBool (model \<noteq> None))]))"

section \<open>The server: requests against the module global\<close>

text \<open>
  The only state of the server is the module global \<^verbatim>\<open>model\<close>, assigned once when the
  module is loaded. A handler reads it; none of the four assigns it, so a request returns
  its reply together with the state it found.
\<close>

datatype request =
    Get_Home
  | Get_Health
  | Get_Predict http_outcome
  | Get_Predict_Custom real real real real real real real

fun handle :: "model_obj option \<Rightarrow> request \<Rightarrow> (error + pyval) \<times> model_obj option" where
  "handle model Get_Home = (Inr home, model)"
| "handle model Get_Health = (health_check model, model)"
| "handle model (Get_Predict outcome) = (predict model outcome, model)"
| "handle model (Get_Predict_Custom pm25 pm10 no2 so2 co o3 nh3) =
     (predict_custom model pm25 pm10 no2 so2 co o3 nh3, model)"

fun serve :: "model_obj option \<Rightarrow> request list \<Rightarrow> (error + pyval) list \<times> model_obj option" where
  "serve model [] = ([], model)"
| "serve model (r # rs) =
     (case handle model r of
        (reply, model') \<Rightarrow>
          (case serve model' rs of (replies, model'') \<Rightarrow> (reply # replies, model'')))"

section \<open>Repeated calls of \<^verbatim>\<open>predict_custom\<close> on an object with internal state\<close>

text \<open>
  \<^verbatim>\<open>model.predict\<close> is a method of the object the global refers to, and a call may
  change that object (a cache, a random generator). To speak of two calls, the object is
  an internal state together with the method, which takes a state and a row and returns
  the result and the state it leaves.
\<close>

datatype 's stateful_model = Stateful_Model 's "'s \<Rightarrow> pyval list \<Rightarrow> (string + real) \<times> 's"

text \<open>
  \<^verbatim>\<open>predict_custom\<close> (lines 132 to 157) in state-passing form: the reply, and the global
  as the call leaves it. The handler calls \<^verbatim>\<open>model.predict\<close> once and assigns nothing.
\<close>

definition predict_custom_call ::
  "'s stateful_model option \<Rightarrow> real \<Rightarrow> real \<Rightarrow> real \<Rightarrow> real \<Rightarrow> real \<Rightarrow> real \<Rightarrow> real \<Rightarrow>
     (error + pyval) \<times> 's stateful_model option" where
  "predict_custom_call model pm25 pm10 no2 so2 co o3 nh3 =
     (case model of
        None \<Rightarrow> (Inl (HTTPException 500 ''Model not loaded''), None)
      | Some (Stateful_Model s f) \<Rightarrow>
          (case f s (predict_custom_features pm25 pm10 no2 so2 co o3 nh3) of
             (Inl e, s') \<Rightarrow>
               (Inl (HTTPException 500 (''Prediction error: '' @ e)),
                Some (Stateful_Model s' f))
           | (Inr prediction, s') \<Rightarrow>
               (Inr (PDict
                  [(''AQI_Predicted'', PNum (round_float64 prediction 2)),
                   (''status'', PStr (get_aqi_status prediction)),
                   (''input_parameters'', PDict
                      [(''PM2.5'', PNum pm25), (''PM10'', PNum pm10), (''NO2'', PNum no2),
                       (''SO2'', PNum so2), (''CO'', PNum co), (''O3'', PNum o3),
                       (''NH3'', PNum nh3)])]),
                Some (Stateful_Model s' f))))"

text \<open>The global after a sequence of such calls, one parameter tuple for each.\<close>

fun predict_custom_calls ::
  "'s stateful_model option \<Rightarrow> (real \<times> real \<times> real \<times> real \<times> real \<times> real \<times> real) list \<Rightarrow>
     's stateful_model option" where
  "predict_custom_calls model [] = model"
| "predict_custom_calls model ((pm25, pm10, no2, so2, co, o3, nh3) # calls) =
     predict_custom_calls (snd (predict_custom_call model pm25 pm10 no2 so2 co o3 nh3)) calls"

section \<open>The AQI history of the dashboard (dashboard.py)\<close>

text \<open>
  One run of the script appends \<^verbatim>\<open>{"time": current_time, "aqi": data["AQI_Predicted"]}\<close>
  to \<^verbatim>\<open>st.session_state.aqi_history\<close> and then, when the list has more than 20 entries,
  removes its first one with \<^verbatim>\<open>pop(0)\<close> (lines 147 to 155). The session starts with the
  empty list.
\<close>

definition aqi_history_update :: "pyval list \<Rightarrow> string \<Rightarrow> pyval \<Rightarrow> pyval list" where
  "aqi_history_update aqi_history current_time aqi =
     (let appended = aqi_history @ [PDict [(''time'', PStr current_time), (''aqi'', aqi)]]
      in if length appended > 20 then tl appended else appended)"

text \<open>The history after a sequence of runs, each with its time and its AQI value.\<close>

fun aqi_history_runs :: "pyval list \<Rightarrow> (string \<times> pyval) list \<Rightarrow> pyval list" where
  "aqi_history_runs aqi_history [] = aqi_history"
| "aqi_history_runs aqi_history ((current_time, aqi) # runs) =
     aqi_history_runs (aqi_history_update aqi_history current_time aqi) runs"

section \<open>Properties of the classification\<close>

lemmas status_defs =
  status_good_def status_moderate_def status_sensitive_def status_unhealthy_def
  status_very_unhealthy_def status_hazardous_def

lemma status_distinct:
  "distinct [status_good, status_moderate, status_sensitive, status_unhealthy,
     status_very_unhealthy, status_hazardous]"
  by (simp add: status_defs)

text \<open>
  Claim C2. For every real score, \<open>get_aqi_status\<close> returns the band whose inclusive
  upper threshold the score does not exceed: Good up to 50, Moderate above 50 up to 100,
  Unhealthy for Sensitive Groups above 100 up to 150, Unhealthy above 150 up to 200,
  Very Unhealthy above 200 up to 300, Hazardous above 300. Each of the boundary values
  50, 100, 150, 200 and 300 falls in the lower band, and the value just above it in the
  next one.
\<close>

theorem get_aqi_status_bands:
  "(get_aqi_status aqi = status_good \<longleftrightarrow> aqi \<le> 50) \<and>
   (get_aqi_status aqi = status_moderate \<longleftrightarrow> 50 < aqi \<and> aqi \<le> 100) \<and>
   (get_aqi_status aqi = status_sensitive \<longleftrightarrow> 100 < aqi \<and> aqi \<le> 150) \<and>
   (get_aqi_status aqi = status_unhealthy \<longleftrightarrow> 150 < aqi \<and> aqi \<le> 200) \<and>
   (get_aqi_status aqi = status_very_unhealthy \<longleftrightarrow> 200 < aqi \<and> aqi \<le> 300) \<and>
   (get_aqi_status aqi = status_hazardous \<longleftrightarrow> 300 < aqi) \<and>
   get_aqi_status 50 = status_good \<and> get_aqi_status 51 = status_moderate \<and>
   get_aqi_status 100 = status_moderate \<and> get_aqi_status 101 = status_sensitive \<and>
   get_aqi_status 150 = status_sensitive \<and> get_aqi_status 151 = status_unhealthy \<and>
   get_aqi_status 200 = status_unhealthy \<and> get_aqi_status 201 = status_very_unhealthy \<and>
   get_aqi_status 300 = status_very_unhealthy \<and> get_aqi_status 301 = status_hazardous"
  by (simp add: get_aqi_status_def status_defs)

text \<open>
  Claim C9. \<open>get_aqi_status\<close> has no failure branch: on every real score, negative and
  arbitrarily large ones included, it returns one of six strings, the six are pairwise
  different and each is returned for some score, and every negative score is classified
  as Good.
\<close>

theorem get_aqi_status_total:
  "get_aqi_status aqi \<in> {status_good, status_moderate, status_sensitive, status_unhealthy,
     status_very_unhealthy, status_hazardous} \<and>
   range get_aqi_status = {status_good, status_moderate, status_sensitive, status_unhealthy,
     status_very_unhealthy, status_hazardous} \<and>
   card (range get_aqi_status) = 6 \<and>
   (aqi < 0 \<longrightarrow> get_aqi_status aqi = status_good)"
proof -
  let ?S = "{status_good, status_moderate, status_sensitive, status_unhealthy,
     status_very_unhealthy, status_hazardous}"
  have sub: "get_aqi_status x \<in> ?S" for x
    by (simp add: get_aqi_status_def)
  have "status_good = get_aqi_status 0" "status_moderate = get_aqi_status 51"
    "status_sensitive = get_aqi_status 101" "status_unhealthy = get_aqi_status 151"
    "status_very_unhealthy = get_aqi_status 201" "status_hazardous = get_aqi_status 301"
    by (simp_all add: get_aqi_status_def)
  then have sup: "?S \<subseteq> range get_aqi_status"
    by (metis empty_subsetI insert_subset rangeI)
  have rng: "range get_aqi_status = ?S"
    using sub sup by blast
  have "card ?S = 6"
    using status_distinct by simp
  then show ?thesis
    using sub rng by (simp add: get_aqi_status_def)
qed

theorem get_aqi_status_total_witness:
  "(-5::real) < 0 \<and> get_aqi_status (-5) = status_good \<and>
   get_aqi_status (-5) \<in> {status_good, status_moderate, status_sensitive, status_unhealthy,
     status_very_unhealthy, status_hazardous}"
  using get_aqi_status_total [of "-5"] by simp

section \<open>Properties of the live reading\<close>

lemma fetch_live_data_raise:
  "fetch_live_data_try outcome = None \<Longrightarrow> fetch_live_data outcome = fallback_reading"
  by (simp add: fetch_live_data_def)

text \<open>
  Claim C3, amended. \<open>fetch_live_data\<close> returns a reading and never an exception, and
  the reading is exactly the fixed fallback (pm2_5 25.0, pm10 45.0, no2 12.0, so2 5.0,
  co 0.5, o3 45.0, nh3 0.0) whenever a statement of its \<^verbatim>\<open>try\<close> block raises: the
  request itself fails (timeout or another transport error), the status is a client or
  server error (400 to 599), the body does not parse as JSON, the parsed body has no
  \<^verbatim>\<open>hourly\<close> member, or one of the six series is missing from it or cannot be indexed.
\<close>

theorem fetch_live_data_fallback:
  "fetch_live_data Transport_Error = fallback_reading \<and>
   (400 \<le> status_code \<and> status_code < 600 \<longrightarrow>
      fetch_live_data (Response status_code body) = fallback_reading) \<and>
   fetch_live_data (Response code None) = fallback_reading \<and>
   (subscript data ''hourly'' = None \<longrightarrow>
      fetch_live_data (Response code (Some data)) = fallback_reading) \<and>
   (subscript data2 ''hourly'' = Some hourly \<and>
    k \<in> set [''pm2_5'', ''pm10'', ''nitrogen_dioxide'', ''sulphur_dioxide'',
              ''carbon_monoxide'', ''ozone''] \<and>
    (subscript hourly k = None \<or>
     (\<exists>series. subscript hourly k = Some series \<and> latest_value series = None)) \<longrightarrow>
      fetch_live_data (Response code (Some data2)) = fallback_reading) \<and>
   (fetch_live_data_try outcome = None \<longrightarrow> fetch_live_data outcome = fallback_reading)"
proof -
  have transport: "fetch_live_data_try Transport_Error = None"
    by (simp add: fetch_live_data_try_def)
  have status: "fetch_live_data_try (Response status_code body) = None"
    if "400 \<le> status_code \<and> status_code < 600"
    using that by (simp add: fetch_live_data_try_def raise_for_status_def)
  have body: "fetch_live_data_try (Response code None) = None"
    by (simp add: fetch_live_data_try_def)
  have hourly: "fetch_live_data_try (Response code (Some data)) = None"
    if "subscript data ''hourly'' = None"
    using that by (simp add: fetch_live_data_try_def)
  have series: "fetch_live_data_try (Response code (Some data2)) = None"
    if "subscript data2 ''hourly'' = Some hourly"
      and "k \<in> set [''pm2_5'', ''pm10'', ''nitrogen_dioxide'', ''sulphur_dioxide'',
              ''carbon_monoxide'', ''ozone'']"
      and "subscript hourly k = None \<or>
        (\<exists>series. subscript hourly k = Some series \<and> latest_value series = None)"
  proof -
    have "(subscript hourly k \<bind> latest_value) = None"
      using that(3) by auto
    then show ?thesis
      using that(1,2) by (auto simp add: fetch_live_data_try_def split: bind_splits)
  qed
  show ?thesis
    using transport status body hourly series by (simp add: fetch_live_data_raise)
qed


lemma example_hourly:
  "subscript example_body ''hourly'' = Some (PDict
         [(''time'', PList [PStr ''2024-01-01T00:00'', PStr ''2024-01-01T01:00'']),
          (''pm10'', PList [PNum 18, PNum 20]),
          (''pm2_5'', PList [PNum 9, PNum 10]),
          (''nitrogen_dioxide'', PList [PNum 14, PNum 15]),
          (''sulphur_dioxide'', PList [PNum 4, PNum 5]),
          (''carbon_monoxide'', PList [PNum 0.4, PNum 0.5]),
          (''ozone'', PList [PNum 38, PNum 40])])"
  by (simp add: example_body_def)

lemma fetch_live_data_example:
  "\<not> raise_for_status status_code \<Longrightarrow>
   fetch_live_data (Response status_code (Some example_body)) =
     [(''pm2_5'', PNum 10), (''pm10'', PNum 20), (''no2'', PNum 15), (''so2'', PNum 5),
      (''co'', PNum 0.5), (''o3'', PNum 40), (''nh3'', PNum 0)]"
  by (simp add: fetch_live_data_def fetch_live_data_try_def example_hourly latest_value_def)

theorem fetch_live_data_fallback_witness:
  "400 \<le> (503::nat) \<and> (503::nat) < 600 \<and>
   fetch_live_data (Response 503 (Some example_body)) = fallback_reading \<and>
   subscript (PList []) ''hourly'' = None \<and>
   fetch_live_data (Response 200 (Some (PList []))) = fallback_reading \<and>
   subscript (PDict [(''hourly'', PDict [(''pm2_5'', PNum 7)])]) ''hourly'' =
     Some (PDict [(''pm2_5'', PNum 7)]) \<and>
   subscript (PDict [(''pm2_5'', PNum 7)]) ''pm2_5'' = Some (PNum 7) \<and>
   latest_value (PNum 7) = None \<and>
   fetch_live_data (Response 200 (Some (PDict [(''hourly'', PDict [(''pm2_5'', PNum 7)])]))) =
     fallback_reading \<and>
   fetch_live_data_try (Response 200 None) = None \<and>
   fetch_live_data (Response 200 None) = fallback_reading"
  using fetch_live_data_fallback [of 503 "Some example_body" 200 "PList []"
      "PDict [(''hourly'', PDict [(''pm2_5'', PNum 7)])]" "PDict [(''pm2_5'', PNum 7)]"
      "''pm2_5''" "Response 200 None"]
  by (simp add: latest_value_def fetch_live_data_try_def)

text \<open>
  The claim as written counts every status outside 200 to 299 as a failure. A response
  with status 300 is not raised by \<^verbatim>\<open>raise_for_status\<close>; when its body has the
  expected shape, the function returns the reading of that body and not the fallback.
\<close>

theorem fetch_live_data_status_300_counterexample:
  "\<not> (200 \<le> (300::nat) \<and> (300::nat) < 300) \<and>
   fetch_live_data (Response 300 (Some example_body)) =
     [(''pm2_5'', PNum 10), (''pm10'', PNum 20), (''no2'', PNum 15), (''so2'', PNum 5),
      (''co'', PNum 0.5), (''o3'', PNum 40), (''nh3'', PNum 0)] \<and>
   fetch_live_data (Response 300 (Some example_body)) \<noteq> fallback_reading"
  by (simp add: fetch_live_data_example raise_for_status_def fallback_reading_def)

text \<open>
  Claim C7. On a successful response (no transport error, a status that is no client or
  server error, a JSON object whose \<^verbatim>\<open>hourly\<close> member holds the six series as lists),
  \<open>fetch_live_data\<close> takes the last value of each series for pm2_5, pm10, no2, so2, co
  and o3, puts 0 for a series that is empty instead of failing, and sets nh3 to 0.0.
\<close>

theorem fetch_live_data_latest:
  assumes "\<not> raise_for_status status_code"
    and "subscript data ''hourly'' = Some hourly"
    and "subscript hourly ''pm2_5'' = Some (PList pm2_5)"
    and "subscript hourly ''pm10'' = Some (PList pm10)"
    and "subscript hourly ''nitrogen_dioxide'' = Some (PList no2)"
    and "subscript hourly ''sulphur_dioxide'' = Some (PList so2)"
    and "subscript hourly ''carbon_monoxide'' = Some (PList co)"
    and "subscript hourly ''ozone'' = Some (PList o3)"
  shows "fetch_live_data (Response status_code (Some data)) =
     [(''pm2_5'', if pm2_5 = [] then PNum 0 else last pm2_5),
      (''pm10'', if pm10 = [] then PNum 0 else last pm10),
      (''no2'', if no2 = [] then PNum 0 else last no2),
      (''so2'', if so2 = [] then PNum 0 else last so2),
      (''co'', if co = [] then PNum 0 else last co),
      (''o3'', if o3 = [] then PNum 0 else last o3),
      (''nh3'', PNum 0)]"
proof -
  have latest: "latest_value (PList xs) = Some (if xs = [] then PNum 0 else last xs)" for xs
    by (simp add: latest_value_def)
  show ?thesis
    using assms by (simp add: fetch_live_data_def fetch_live_data_try_def latest)
qed

theorem fetch_live_data_latest_witness:
  "\<not> raise_for_status 200 \<and>
   fetch_live_data (Response 200 (Some (PDict
     [(''hourly'', PDict
        [(''pm10'', PList [PNum 18, PNum 20]),
         (''pm2_5'', PList []),
         (''nitrogen_dioxide'', PList [PNum 15]),
         (''sulphur_dioxide'', PList [PNum 4, PNone]),
         (''carbon_monoxide'', PList []),
         (''ozone'', PList [PNum 38, PNum 39, PNum 40])])]))) =
     [(''pm2_5'', PNum 0), (''pm10'', PNum 20), (''no2'', PNum 15), (''so2'', PNone),
      (''co'', PNum 0), (''o3'', PNum 40), (''nh3'', PNum 0)]"
  using fetch_live_data_latest [of 200
      "PDict [(''hourly'', PDict
        [(''pm10'', PList [PNum 18, PNum 20]),
         (''pm2_5'', PList []),
         (''nitrogen_dioxide'', PList [PNum 15]),
         (''sulphur_dioxide'', PList [PNum 4, PNone]),
         (''carbon_monoxide'', PList []),
         (''ozone'', PList [PNum 38, PNum 39, PNum 40])])]"
      "PDict
        [(''pm10'', PList [PNum 18, PNum 20]),
         (''pm2_5'', PList []),
         (''nitrogen_dioxide'', PList [PNum 15]),
         (''sulphur_dioxide'', PList [PNum 4, PNone]),
         (''carbon_monoxide'', PList []),
         (''ozone'', PList [PNum 38, PNum 39, PNum 40])]"
      "[]" "[PNum 18, PNum 20]" "[PNum 15]" "[PNum 4, PNone]" "[]"
      "[PNum 38, PNum 39, PNum 40]"]
  by (simp add: raise_for_status_def)

section \<open>Properties of the prediction endpoints\<close>

lemma round_half_even_close: "\<bar>of_int (round_half_even x) - x\<bar> \<le> 1 / 2"
proof -
  have "of_int \<lfloor>x\<rfloor> \<le> x" "x < of_int \<lfloor>x\<rfloor> + 1"
    by linarith+
  then show ?thesis
    by (auto simp add: round_half_even_def Let_def)
qed

lemma binade_le:
  assumes "x \<noteq> 0"
  shows "2 powi binade x \<le> \<bar>x\<bar>"
proof (cases "1 \<le> \<bar>x\<bar>")
  case True
  let ?n = "\<lfloor>\<bar>x\<bar>\<rfloor>"
  have n: "0 < ?n"
    using True by simp
  then have k: "0 \<le> bitlen ?n - 1"
    by (simp add: bitlen_alt_def)
  have "2 ^ nat (bitlen ?n - 1) \<le> ?n"
    using bitlen_bounds [OF n] ..
  then have "(2::real) ^ nat (bitlen ?n - 1) \<le> of_int ?n"
    by (metis of_int_le_iff of_int_numeral of_int_power)
  also have "\<dots> \<le> \<bar>x\<bar>"
    by simp
  finally show ?thesis
    using True k by (simp add: binade_def power_int_def)
next
  case False
  let ?n = "\<lceil>1 / \<bar>x\<bar>\<rceil> - 1"
  have x: "0 < \<bar>x\<bar>" "\<bar>x\<bar> < 1"
    using assms False by simp_all
  then have "1 < 1 / \<bar>x\<bar>"
    by simp
  then have n: "0 < ?n"
    by (simp add: less_ceiling_iff)
  have "?n < 2 ^ nat (bitlen ?n)"
    using bitlen_bounds [OF n] ..
  then have "\<lceil>1 / \<bar>x\<bar>\<rceil> \<le> 2 ^ nat (bitlen ?n)"
    by simp
  then have "1 / \<bar>x\<bar> \<le> 2 ^ nat (bitlen ?n)"
    by (simp add: ceiling_le_iff)
  then have "1 / 2 ^ nat (bitlen ?n) \<le> \<bar>x\<bar>"
    using x(1) by (simp add: field_simps)
  moreover have "(2::real) powi (- bitlen ?n) = 1 / 2 ^ nat (bitlen ?n)"
    using bitlen_nonneg [of ?n] by (simp add: power_int_minus_divide power_int_def power_one_over)
  ultimately show ?thesis
    using False by (simp add: binade_def)
qed

text \<open>
  Rounding to a double moves a number by at most half a unit in the last place: a
  relative error of \<open>2 ^ -53\<close>, or less than \<open>2 ^ -60\<close> among the subnormal numbers.
\<close>

lemma float64_close: "\<bar>float64 x - x\<bar> \<le> \<bar>x\<bar> / 2 ^ 53 + 1 / 2 ^ 60"
proof (cases "x = 0")
  case True
  then show ?thesis by (simp add: float64_def)
next
  case False
  define e where "e = max (binade x - 52) (- 1074)"
  define p :: real where "p = 2 powi e"
  have p: "0 < p"
    by (simp add: p_def)
  have f: "float64 x = of_int (round_half_even (x / p)) * p"
    using False by (simp add: float64_def e_def p_def Let_def)
  have "\<bar>of_int (round_half_even (x / p)) - x / p\<bar> \<le> 1 / 2"
    by (rule round_half_even_close)
  then have "\<bar>of_int (round_half_even (x / p)) - x / p\<bar> * p \<le> 1 / 2 * p"
    using p by (intro mult_right_mono) simp_all
  moreover have "\<bar>of_int (round_half_even (x / p)) - x / p\<bar> * p = \<bar>float64 x - x\<bar>"
  proof -
    have "(of_int (round_half_even (x / p)) - x / p) * p = float64 x - x"
      using p by (simp add: f left_diff_distrib)
    then have "\<bar>float64 x - x\<bar> = \<bar>of_int (round_half_even (x / p)) - x / p\<bar> * \<bar>p\<bar>"
      by (simp only: abs_mult [symmetric])
    then show ?thesis
      using p by simp
  qed
  ultimately have half: "\<bar>float64 x - x\<bar> \<le> p / 2"
    by simp
  have "p / 2 \<le> \<bar>x\<bar> / 2 ^ 53 + 1 / 2 ^ 60"
  proof (cases "- 1074 \<le> binade x - 52")
    case True
    then have "e = binade x - 52"
      by (simp add: e_def)
    moreover have "(2::real) powi (binade x - 52) = 2 powi binade x / 2 powi 52"
      by (rule power_int_diff) simp
    ultimately have "p = 2 powi binade x / 2 powi 52"
      by (simp only: p_def)
    then have "p / 2 \<le> \<bar>x\<bar> / 2 ^ 53"
      using binade_le [OF False] by simp
    then show ?thesis
      by (rule order_trans) simp
  next
    case False
    then have "e = - 1074"
      by (simp add: e_def)
    then have "p = 2 powi (- 1074)"
      by (simp only: p_def)
    also have "\<dots> \<le> 1 / 2 ^ 59"
      by (simp add: power_int_minus_divide)
    finally have "p / 2 \<le> 1 / 2 ^ 60"
      by simp
    then show ?thesis
      by (rule order_trans) simp
  qed
  then show ?thesis
    using half by simp
qed

text \<open>
  The rounded score is within half a hundredth of the score, up to the rounding errors of
  the two floating-point operations.
\<close>

lemma round_float64_close:
  "\<bar>round_float64 x 2 - x\<bar> \<le> 1 / 200 + (\<bar>x\<bar> + 1) / 2 ^ 51"
proof -
  define y where "y = float64 (x * 100)"
  define r :: real where "r = of_int (round_half_even y)"
  define z where "z = float64 (r / 100)"
  have z: "round_float64 x 2 = z"
    by (simp add: round_float64_def z_def r_def y_def)
  have a1: "\<bar>y - x * 100\<bar> \<le> \<bar>x * 100\<bar> / 2 ^ 53 + 1 / 2 ^ 60"
    unfolding y_def by (rule float64_close)
  have a2: "\<bar>r - y\<bar> \<le> 1 / 2"
    unfolding r_def by (rule round_half_even_close)
  have a3: "\<bar>z - r / 100\<bar> \<le> \<bar>r / 100\<bar> / 2 ^ 53 + 1 / 2 ^ 60"
    unfolding z_def by (rule float64_close)
  have b1: "\<bar>y - x * 100\<bar> \<le> 100 * \<bar>x\<bar> / 2 ^ 53 + 1 / 2 ^ 60"
    using a1 by (simp add: abs_mult)
  have b3: "\<bar>z - r / 100\<bar> \<le> \<bar>r\<bar> / 100 / 2 ^ 53 + 1 / 2 ^ 60"
    using a3 by simp
  show ?thesis
    unfolding z using b1 a2 b3 by (simp add: field_simps) argo
qed

text \<open>
  Values of the rounding. The double nearest to 1.115 is
  \<open>5021513584518103 / 2 ^ 52\<close>, just below 1.115; its hundredfold rounds to the double
  111.5, which \<^verbatim>\<open>rint\<close> takes to 112, and the result is the double nearest to 1.12.
  The double nearest to 50.004 is \<open>7037437367719821 / 2 ^ 47\<close>.
\<close>

lemma round_float64_values:
  "round_float64 0 2 = 0"
  "round_float64 1 2 = 1"
  "round_float64 20 2 = 20"
  "round_float64 42 2 = 42"
  "round_float64 (5021513584518103 / 4503599627370496) 2 =
     1261007895663739 / 1125899906842624"
  "round_float64 (7037437367719821 / 140737488355328) 2 = 50"
  "float64 (7037437367719821 / 140737488355328) = 7037437367719821 / 140737488355328"
  by code_simp+

lemma predict_features_reading:
  "predict_features
     [(''pm2_5'', pm2_5), (''pm10'', pm10), (''no2'', no2), (''so2'', so2), (''co'', co),
      (''o3'', o3), (''nh3'', nh3)] =
   Inr [pm2_5, pm10, PNum 0, no2, nh3, co, so2, o3]"
  by (simp add: predict_features_def dict_get_def then_err_def)

lemma predict_loaded:
  "predict_features (fetch_live_data outcome) = Inr X \<Longrightarrow>
   model_predict m X = Inr prediction \<Longrightarrow>
   predict (Some m) outcome = Inr (PDict
     [(''AQI_Predicted'', PNum (round_float64 prediction 2)),
      (''status'', PStr (get_aqi_status prediction)),
      (''pollutants'', PDict (fetch_live_data outcome)),
      (''location'', PStr ''Delhi, India''),
      (''timestamp'', PStr ''Live data'')])"
  by (simp add: predict_def predict_try_def then_err_def Let_def)

text \<open>
  Claim C6. When the live reading is pm2_5 10, pm10 20, no2 15, so2 5, co 0.5, o3 40,
  nh3 0, \<open>predict\<close> builds exactly the row 10, 20, 0, 15, 0, 0.5, 5, 40. When the model
  returns a score for it (a double whose hundredfold does not overflow),
  \<^verbatim>\<open>AQI_Predicted\<close> is that score rounded to two decimal places as the code rounds it:
  the double nearest to a whole number of hundredths, at most half a hundredth away from
  the score up to the floating-point rounding errors. \<^verbatim>\<open>status\<close> is the band of the
  score itself, not of the rounded value.
\<close>

theorem predict_scenario:
  assumes "fetch_live_data outcome =
      [(''pm2_5'', PNum 10), (''pm10'', PNum 20), (''no2'', PNum 15), (''so2'', PNum 5),
       (''co'', PNum 0.5), (''o3'', PNum 40), (''nh3'', PNum 0)]"
    and "model_predict m
      [PNum 10, PNum 20, PNum 0, PNum 15, PNum 0, PNum 0.5, PNum 5, PNum 40] = Inr prediction"
    and "float64 prediction = prediction"
    and "\<bar>prediction\<bar> < 2 ^ 1000"
  shows "predict_features (fetch_live_data outcome) =
      Inr [PNum 10, PNum 20, PNum 0, PNum 15, PNum 0, PNum 0.5, PNum 5, PNum 40] \<and>
    predict (Some m) outcome = Inr (PDict
      [(''AQI_Predicted'', PNum (round_float64 prediction 2)),
       (''status'', PStr (get_aqi_status prediction)),
       (''pollutants'', PDict
          [(''pm2_5'', PNum 10), (''pm10'', PNum 20), (''no2'', PNum 15), (''so2'', PNum 5),
           (''co'', PNum 0.5), (''o3'', PNum 40), (''nh3'', PNum 0)]),
       (''location'', PStr ''Delhi, India''),
       (''timestamp'', PStr ''Live data'')]) \<and>
    (\<exists>n::int. round_float64 prediction 2 = float64 (of_int n / 100)) \<and>
    \<bar>round_float64 prediction 2 - prediction\<bar> \<le> 1 / 200 + (\<bar>prediction\<bar> + 1) / 2 ^ 51"
proof -
  have X: "predict_features (fetch_live_data outcome) =
      Inr [PNum 10, PNum 20, PNum 0, PNum 15, PNum 0, PNum 0.5, PNum 5, PNum 40]"
    by (simp only: assms(1) predict_features_reading)
  have "predict (Some m) outcome = Inr (PDict
      [(''AQI_Predicted'', PNum (round_float64 prediction 2)),
       (''status'', PStr (get_aqi_status prediction)),
       (''pollutants'', PDict (fetch_live_data outcome)),
       (''location'', PStr ''Delhi, India''),
       (''timestamp'', PStr ''Live data'')])"
    using X assms(2) by (rule predict_loaded)
  moreover have "\<exists>n::int. round_float64 prediction 2 = float64 (of_int n / 100)"
    by (auto simp add: round_float64_def)
  ultimately show ?thesis
    using X round_float64_close [of prediction] by (simp add: assms(1))
qed

theorem predict_scenario_witness:
  "predict (Some (Model True (\<lambda>X.
       if X = [PNum 10, PNum 20, PNum 0, PNum 15, PNum 0, PNum 0.5, PNum 5, PNum 40]
       then Inr (7037437367719821 / 140737488355328) else Inl ''unexpected row'')))
     (Response 200 (Some example_body)) =
   Inr (PDict
      [(''AQI_Predicted'', PNum 50),
       (''status'', PStr status_moderate),
       (''pollutants'', PDict
          [(''pm2_5'', PNum 10), (''pm10'', PNum 20), (''no2'', PNum 15), (''so2'', PNum 5),
           (''co'', PNum 0.5), (''o3'', PNum 40), (''nh3'', PNum 0)]),
       (''location'', PStr ''Delhi, India''),
       (''timestamp'', PStr ''Live data'')]) \<and>
   get_aqi_status 50 = status_good \<and> status_good \<noteq> status_moderate"
proof -
  let ?score = "7037437367719821 / 140737488355328 :: real"
  let ?m = "Model True (\<lambda>X.
       if X = [PNum 10, PNum 20, PNum 0, PNum 15, PNum 0, PNum 0.5, PNum 5, PNum 40]
       then Inr ?score else Inl ''unexpected row'')"
  have "\<not> raise_for_status 200"
    by (simp add: raise_for_status_def)
  then have reading: "fetch_live_data (Response 200 (Some example_body)) =
      [(''pm2_5'', PNum 10), (''pm10'', PNum 20), (''no2'', PNum 15), (''so2'', PNum 5),
       (''co'', PNum 0.5), (''o3'', PNum 40), (''nh3'', PNum 0)]"
    by (rule fetch_live_data_example)
  have score: "model_predict ?m
      [PNum 10, PNum 20, PNum 0, PNum 15, PNum 0, PNum 0.5, PNum 5, PNum 40] = Inr ?score"
    by simp
  have double: "float64 ?score = ?score"
    by (rule round_float64_values)
  have range: "\<bar>?score\<bar> < 2 ^ 1000"
    by simp
  have rounded: "round_float64 ?score 2 = 50"
    by (rule round_float64_values)
  have band: "get_aqi_status ?score = status_moderate"
    by (simp add: get_aqi_status_def)
  have "predict (Some ?m) (Response 200 (Some example_body)) = Inr (PDict
      [(''AQI_Predicted'', PNum (round_float64 ?score 2)),
       (''status'', PStr (get_aqi_status ?score)),
       (''pollutants'', PDict
          [(''pm2_5'', PNum 10), (''pm10'', PNum 20), (''no2'', PNum 15), (''so2'', PNum 5),
           (''co'', PNum 0.5), (''o3'', PNum 40), (''nh3'', PNum 0)]),
       (''location'', PStr ''Delhi, India''),
       (''timestamp'', PStr ''Live data'')])"
    using predict_scenario [OF reading score double range] by blast
  moreover have "get_aqi_status 50 = status_good"
    by (simp add: get_aqi_status_def)
  moreover have "status_good \<noteq> status_moderate"
    by (simp add: status_defs)
  ultimately show ?thesis
    by (simp only: rounded band simp_thms)
qed

text \<open>
  Claim C1. The claim asks that \<open>predict\<close> and \<open>predict_custom\<close> build the same row
  from the same seven pollutant values. The code does not: for pm2_5 10, pm10 20, no2 15,
  so2 5, co 0.5, o3 40, nh3 0 the live path builds 10, 20, 0, 15, 0, 0.5, 5, 40 and the
  custom path 10, 0, 15, 0, 0.5, 5, 40, 20. The two rows agree exactly when all of pm10,
  no2, so2, co, o3 and nh3 are zero, and a model that reads the second feature (PM10 in
  the order the comment of \<open>predict\<close> documents) scores the same values 20 on the live
  path and 0 on the custom path.
\<close>

theorem feature_order_mismatch:
  "predict_features
     [(''pm2_5'', PNum 10), (''pm10'', PNum 20), (''no2'', PNum 15), (''so2'', PNum 5),
      (''co'', PNum 0.5), (''o3'', PNum 40), (''nh3'', PNum 0)] =
     Inr [PNum 10, PNum 20, PNum 0, PNum 15, PNum 0, PNum 0.5, PNum 5, PNum 40] \<and>
   predict_custom_features 10 20 15 5 0.5 40 0 =
     [PNum 10, PNum 0, PNum 15, PNum 0, PNum 0.5, PNum 5, PNum 40, PNum 20] \<and>
   predict_features
     [(''pm2_5'', PNum 10), (''pm10'', PNum 20), (''no2'', PNum 15), (''so2'', PNum 5),
      (''co'', PNum 0.5), (''o3'', PNum 40), (''nh3'', PNum 0)] \<noteq>
     Inr (predict_custom_features 10 20 15 5 0.5 40 0) \<and>
   (predict_features
      [(''pm2_5'', PNum pm2_5), (''pm10'', PNum pm10), (''no2'', PNum no2),
       (''so2'', PNum so2), (''co'', PNum co), (''o3'', PNum o3), (''nh3'', PNum nh3)] =
      Inr (predict_custom_features pm2_5 pm10 no2 so2 co o3 nh3)
    \<longleftrightarrow> pm10 = 0 \<and> no2 = 0 \<and> so2 = 0 \<and> co = 0 \<and> o3 = 0 \<and> nh3 = 0) \<and>
   (\<exists>rest. predict
      (Some (Model True (\<lambda>X. case X ! 1 of PNum x \<Rightarrow> Inr x | _ \<Rightarrow> Inl ''not a number'')))
      (Response 200 (Some example_body)) =
      Inr (PDict ((''AQI_Predicted'', PNum 20) # rest))) \<and>
   (\<exists>rest. predict_custom
      (Some (Model True (\<lambda>X. case X ! 1 of PNum x \<Rightarrow> Inr x | _ \<Rightarrow> Inl ''not a number'')))
      10 20 15 5 0.5 40 0 =
      Inr (PDict ((''AQI_Predicted'', PNum 0) # rest)))"
proof -
  have "\<not> raise_for_status 200"
    by (simp add: raise_for_status_def)
  then have reading: "fetch_live_data (Response 200 (Some example_body)) =
      [(''pm2_5'', PNum 10), (''pm10'', PNum 20), (''no2'', PNum 15), (''so2'', PNum 5),
       (''co'', PNum 0.5), (''o3'', PNum 40), (''nh3'', PNum 0)]"
    by (rule fetch_live_data_example)
  have twenty: "round_float64 20 2 = 20" and zero: "round_float64 0 2 = 0"
    by (rule round_float64_values)+
  have live: "\<exists>rest. predict
      (Some (Model True (\<lambda>X. case X ! 1 of PNum x \<Rightarrow> Inr x | _ \<Rightarrow> Inl ''not a number'')))
      (Response 200 (Some example_body)) =
      Inr (PDict ((''AQI_Predicted'', PNum 20) # rest))"
    by (simp add: predict_def predict_try_def reading predict_features_reading then_err_def
        twenty)
  have custom: "\<exists>rest. predict_custom
      (Some (Model True (\<lambda>X. case X ! 1 of PNum x \<Rightarrow> Inr x | _ \<Rightarrow> Inl ''not a number'')))
      10 20 15 5 0.5 40 0 =
      Inr (PDict ((''AQI_Predicted'', PNum 0) # rest))"
    by (simp add: predict_custom_def predict_custom_try_def predict_custom_features_def
        then_err_def zero)
  show ?thesis
    using live custom
    by (auto simp add: predict_features_reading predict_custom_features_def)
qed

text \<open>
  Claim C5. When the model reference is \<^verbatim>\<open>None\<close>, \<open>predict\<close> and \<open>predict_custom\<close>
  both end in the HTTP error 500 with detail "Model not loaded", for every reply of the
  provider and every parameter value, so neither returns a score; the server goes on
  answering the requests that follow.
\<close>

theorem predictions_without_model:
  "predict None outcome = Inl (HTTPException 500 ''Model not loaded'') \<and>
   predict_custom None pm25 pm10 no2 so2 co o3 nh3 =
     Inl (HTTPException 500 ''Model not loaded'') \<and>
   serve None [Get_Predict outcome, Get_Predict_Custom pm25 pm10 no2 so2 co o3 nh3, Get_Health] =
     ([Inl (HTTPException 500 ''Model not loaded''),
       Inl (HTTPException 500 ''Model not loaded''),
       Inr (PDict [(''status'', PStr ''model_not_loaded''), (''model_loaded'', PBool False)])],
      None)"
  by (simp add: predict_def predict_custom_def health_check_def truth_test_def)

lemma predict_custom_call_read_only:
  assumes "\<And>s X. snd (f s X) = s"
  shows "snd (predict_custom_call (Some (Stateful_Model s f)) pm25 pm10 no2 so2 co o3 nh3) =
    Some (Stateful_Model s f)"
proof -
  obtain r s' where call: "f s (predict_custom_features pm25 pm10 no2 so2 co o3 nh3) = (r, s')"
    by (cases "f s (predict_custom_features pm25 pm10 no2 so2 co o3 nh3)")
  then have "s' = s"
    using assms [of s "predict_custom_features pm25 pm10 no2 so2 co o3 nh3"] by simp
  then show ?thesis
    using call by (cases r) (simp_all add: predict_custom_call_def)
qed

lemma predict_custom_calls_read_only:
  assumes "\<And>s X. snd (f s X) = s"
  shows "predict_custom_calls (Some (Stateful_Model s f)) calls = Some (Stateful_Model s f)"
proof (induction calls)
  case Nil
  show ?case by simp
next
  case (Cons c calls)
  obtain pm25 pm10 no2 so2 co o3 nh3 where c: "c = (pm25, pm10, no2, so2, co, o3, nh3)"
    by (cases c)
  show ?case
    unfolding c using Cons.IH by (simp add: predict_custom_call_read_only [OF assms])
qed

lemma predict_custom_calls_None: "predict_custom_calls None calls = None"
proof (induction calls)
  case Nil
  show ?case by simp
next
  case (Cons c calls)
  obtain pm25 pm10 no2 so2 co o3 nh3 where c: "c = (pm25, pm10, no2, so2, co, o3, nh3)"
    by (cases c)
  show ?case
    unfolding c using Cons.IH by (simp add: predict_custom_call_def)
qed

text \<open>
  The state-passing form agrees with \<open>predict_custom\<close> on the object as it is when the
  call is made.
\<close>

lemma predict_custom_call_reply:
  "fst (predict_custom_call (Some (Stateful_Model s f)) pm25 pm10 no2 so2 co o3 nh3) =
   predict_custom (Some (Model b (\<lambda>X. fst (f s X)))) pm25 pm10 no2 so2 co o3 nh3"
proof -
  obtain r s' where call: "f s (predict_custom_features pm25 pm10 no2 so2 co o3 nh3) = (r, s')"
    by (cases "f s (predict_custom_features pm25 pm10 no2 so2 co o3 nh3)")
  then show ?thesis
    by (cases r)
      (simp_all add: predict_custom_call_def predict_custom_def predict_custom_try_def
        then_err_def)
qed

text \<open>
  Claim C8. \<open>predict_custom\<close> is deterministic for a fixed model. When the model is
  absent, or is an object that \<^verbatim>\<open>model.predict\<close> leaves as it found it (its result
  then depends on the row alone), the handler leaves the global unchanged, and a call
  made after any sequence of further calls returns the same reply as a call with the same
  seven parameters made at the start: same \<^verbatim>\<open>AQI_Predicted\<close>, same \<^verbatim>\<open>status\<close>, same
  \<^verbatim>\<open>input_parameters\<close>.
\<close>

theorem predict_custom_deterministic:
  "fst (predict_custom_call (predict_custom_calls (None :: 's stateful_model option) calls)
      pm25 pm10 no2 so2 co o3 nh3) =
     fst (predict_custom_call (None :: 's stateful_model option) pm25 pm10 no2 so2 co o3 nh3) \<and>
   ((\<forall>s X. snd (f s X) = s) \<longrightarrow>
      predict_custom_calls (Some (Stateful_Model (s0 :: 's) f)) calls =
        Some (Stateful_Model s0 f) \<and>
      fst (predict_custom_call (predict_custom_calls (Some (Stateful_Model s0 f)) calls)
        pm25 pm10 no2 so2 co o3 nh3) =
      fst (predict_custom_call (Some (Stateful_Model s0 f)) pm25 pm10 no2 so2 co o3 nh3))"
proof -
  have "predict_custom_calls (Some (Stateful_Model s0 f)) calls = Some (Stateful_Model s0 f)"
    if "\<forall>s X. snd (f s X) = s"
    using that by (intro predict_custom_calls_read_only) simp
  then show ?thesis
    by (simp add: predict_custom_calls_None)
qed

theorem predict_custom_deterministic_witness:
  "(\<forall>(s::nat) (X::pyval list).
      snd (if X = [] then Inl ''empty row'' else Inr (42::real), s) = s) \<and>
   predict_custom_calls
     (Some (Stateful_Model (0::nat)
        (\<lambda>s X. (if X = [] then Inl ''empty row'' else Inr 42, s))))
     [(1, 2, 3, 4, 5, 6, 7), (10, 20, 15, 5, 0.5, 40, 0)] =
     Some (Stateful_Model 0 (\<lambda>s X. (if X = [] then Inl ''empty row'' else Inr 42, s))) \<and>
   fst (predict_custom_call
     (predict_custom_calls
        (Some (Stateful_Model (0::nat)
           (\<lambda>s X. (if X = [] then Inl ''empty row'' else Inr 42, s))))
        [(1, 2, 3, 4, 5, 6, 7), (10, 20, 15, 5, 0.5, 40, 0)])
     10 20 15 5 0.5 40 0) =
   Inr (PDict
     [(''AQI_Predicted'', PNum 42),
      (''status'', PStr status_good),
      (''input_parameters'', PDict
         [(''PM2.5'', PNum 10), (''PM10'', PNum 20), (''NO2'', PNum 15), (''SO2'', PNum 5),
          (''CO'', PNum 0.5), (''O3'', PNum 40), (''NH3'', PNum 0)])]) \<and>
   fst (predict_custom_call
     (Some (Stateful_Model (0::nat)
        (\<lambda>s X. (if X = [] then Inl ''empty row'' else Inr 42, s))))
     10 20 15 5 0.5 40 0) =
   Inr (PDict
     [(''AQI_Predicted'', PNum 42),
      (''status'', PStr status_good),
      (''input_parameters'', PDict
         [(''PM2.5'', PNum 10), (''PM10'', PNum 20), (''NO2'', PNum 15), (''SO2'', PNum 5),
          (''CO'', PNum 0.5), (''O3'', PNum 40), (''NH3'', PNum 0)])])"
proof -
  let ?f = "\<lambda>(s::nat) (X::pyval list). (if X = [] then Inl ''empty row'' else Inr (42::real), s)"
  let ?calls = "[(1, 2, 3, 4, 5, 6, 7), (10, 20, 15, 5, 0.5, 40, 0)]
    :: (real \<times> real \<times> real \<times> real \<times> real \<times> real \<times> real) list"
  have ro: "\<forall>s X. snd (?f s X) = s"
    by simp
  have first: "fst (predict_custom_call (Some (Stateful_Model 0 ?f)) 10 20 15 5 0.5 40 0) =
      Inr (PDict
        [(''AQI_Predicted'', PNum 42),
         (''status'', PStr status_good),
         (''input_parameters'', PDict
            [(''PM2.5'', PNum 10), (''PM10'', PNum 20), (''NO2'', PNum 15), (''SO2'', PNum 5),
             (''CO'', PNum 0.5), (''O3'', PNum 40), (''NH3'', PNum 0)])])"
    by (simp add: predict_custom_call_def predict_custom_features_def round_float64_values
        get_aqi_status_def)
  have same: "predict_custom_calls (Some (Stateful_Model 0 ?f)) ?calls =
        Some (Stateful_Model 0 ?f) \<and>
      fst (predict_custom_call (predict_custom_calls (Some (Stateful_Model 0 ?f)) ?calls)
        10 20 15 5 0.5 40 0) =
      fst (predict_custom_call (Some (Stateful_Model 0 ?f)) 10 20 15 5 0.5 40 0)"
    using predict_custom_deterministic [of ?calls 10 20 15 5 "0.5" 40 0 ?f 0] ro by blast
  show ?thesis
    using ro same first by (simp only: simp_thms)
qed

text \<open>
  The hypothesis on the model is needed: when \<^verbatim>\<open>model.predict\<close> changes the object
  (here it counts its calls and returns the count), two calls with the same parameters
  return different replies.
\<close>

lemma predict_custom_call_counting_model:
  "fst (predict_custom_call
     (Some (Stateful_Model (0::nat) (\<lambda>s X. (Inr (real s), Suc s)))) 10 20 15 5 0.5 40 0) \<noteq>
   fst (predict_custom_call
     (snd (predict_custom_call
        (Some (Stateful_Model (0::nat) (\<lambda>s X. (Inr (real s), Suc s)))) 10 20 15 5 0.5 40 0))
     10 20 15 5 0.5 40 0)"
  by (simp add: predict_custom_call_def round_float64_values)

section \<open>Properties of the health endpoint\<close>

text \<open>
  Claim C10. The claim asks that in every model state the reply of \<open>health_check\<close> has
  status "healthy" exactly when \<^verbatim>\<open>model_loaded\<close> is true. The code does not: for a
  loaded object whose truth value is false (one whose \<^verbatim>\<open>__len__\<close> returns 0, say) the
  reply has status "model_not_loaded" together with \<^verbatim>\<open>model_loaded\<close> true, although
  \<open>predict_custom\<close>, which tests \<^verbatim>\<open>model is None\<close>, serves a prediction from the same
  object. For an object whose truth test raises, the handler ends in that exception and
  gives no reply at all. With no model, and with an object that is true, the two fields
  agree.
\<close>

theorem health_check_falsy_model:
  "health_check (Some (Model False f)) =
     Inr (PDict [(''status'', PStr ''model_not_loaded''), (''model_loaded'', PBool True)]) \<and>
   (\<exists>reply. predict_custom (Some (Model False (\<lambda>X. Inr 42))) 10 20 15 5 0.5 40 0 =
      Inr reply) \<and>
   health_check (Some (Model_No_Truth msg f)) = Inl (Unhandled msg) \<and>
   health_check None =
     Inr (PDict [(''status'', PStr ''model_not_loaded''), (''model_loaded'', PBool False)]) \<and>
   health_check (Some (Model True f)) =
     Inr (PDict [(''status'', PStr ''healthy''), (''model_loaded'', PBool True)])"
  by (simp add: health_check_def truth_test_def predict_custom_def predict_custom_try_def
      then_err_def)

section \<open>Properties of the AQI history\<close>

lemma aqi_history_update_length:
  "length aqi_history \<le> 20 \<Longrightarrow> length (aqi_history_update aqi_history current_time aqi) \<le> 20"
  by (simp add: aqi_history_update_def Let_def)

lemma aqi_history_update_drop:
  assumes "length aqi_history \<le> 20"
  shows "aqi_history_update aqi_history current_time aqi =
    drop (Suc (length aqi_history) - 20)
      (aqi_history @ [PDict [(''time'', PStr current_time), (''aqi'', aqi)]])"
proof (cases "length aqi_history = 20")
  case True
  then have "aqi_history \<noteq> []"
    by auto
  then show ?thesis
    using True by (simp add: aqi_history_update_def Let_def drop_Suc)
next
  case False
  then show ?thesis
    using assms by (simp add: aqi_history_update_def Let_def)
qed

lemma aqi_history_runs_drop:
  "length aqi_history \<le> 20 \<Longrightarrow>
   aqi_history_runs aqi_history runs =
     drop (length aqi_history + length runs - 20)
       (aqi_history @ map (\<lambda>(t, a). PDict [(''time'', PStr t), (''aqi'', a)]) runs)"
proof (induction runs arbitrary: aqi_history)
  case Nil
  then show ?case by simp
next
  case (Cons run runs)
  obtain t a where run: "run = (t, a)"
    by (cases run)
  let ?e = "PDict [(''time'', PStr t), (''aqi'', a)]"
  let ?h = "aqi_history_update aqi_history t a"
  let ?es = "map (\<lambda>(t, a). PDict [(''time'', PStr t), (''aqi'', a)]) runs"
  define d where "d = Suc (length aqi_history) - 20"
  have len: "length ?h \<le> 20"
    using Cons.prems by (rule aqi_history_update_length)
  have h: "?h = drop d (aqi_history @ [?e])"
    unfolding d_def using Cons.prems by (rule aqi_history_update_drop)
  have d: "d \<le> length aqi_history"
    by (simp add: d_def)
  have lenh: "length ?h = Suc (length aqi_history) - d"
    by (subst h) simp
  have shift: "length ?h + length runs - 20 + d = length aqi_history + length (run # runs) - 20"
    using Cons.prems by (simp add: lenh d_def)
  have "aqi_history_runs aqi_history (run # runs) = aqi_history_runs ?h runs"
    by (simp add: run)
  also have "\<dots> = drop (length ?h + length runs - 20) (?h @ ?es)"
    using len by (rule Cons.IH)
  also have "?h @ ?es = drop d ((aqi_history @ [?e]) @ ?es)"
    using d by (subst h) simp
  also have "drop (length ?h + length runs - 20) \<dots> =
      drop (length ?h + length runs - 20 + d) ((aqi_history @ [?e]) @ ?es)"
    by (simp only: drop_drop)
  also have "\<dots> = drop (length aqi_history + length (run # runs) - 20)
      (aqi_history @ map (\<lambda>(t, a). PDict [(''time'', PStr t), (''aqi'', a)]) (run # runs))"
    by (simp only: shift) (simp add: run)
  finally show ?case .
qed

text \<open>
  Claim C4. Starting from the empty history, 25 runs of the update (append, then evict
  when over capacity) leave exactly the entries of the last 20 runs, in arrival order.
  After each of the 25 steps the history holds the most recent entries, at most 20 of
  them: the oldest entry is the one evicted.
\<close>

theorem aqi_history_last_20:
  assumes "length runs = 25"
  shows "aqi_history_runs [] runs =
      map (\<lambda>(t, a). PDict [(''time'', PStr t), (''aqi'', a)]) (drop 5 runs) \<and>
    length (aqi_history_runs [] runs) = 20 \<and>
    (\<forall>k \<le> 25. length (aqi_history_runs [] (take k runs)) = min k 20 \<and>
       aqi_history_runs [] (take k runs) =
         map (\<lambda>(t, a). PDict [(''time'', PStr t), (''aqi'', a)]) (drop (k - 20) (take k runs)))"
proof -
  have steps: "aqi_history_runs [] (take k runs) =
      map (\<lambda>(t, a). PDict [(''time'', PStr t), (''aqi'', a)]) (drop (k - 20) (take k runs))"
    if "k \<le> 25" for k
    using that assms by (simp add: aqi_history_runs_drop drop_map min_def)
  have "aqi_history_runs [] runs =
      map (\<lambda>(t, a). PDict [(''time'', PStr t), (''aqi'', a)]) (drop 5 runs)"
    using steps [of 25] assms by simp
  moreover have "length (aqi_history_runs [] (take k runs)) = min k 20" if "k \<le> 25" for k
    using that assms by (simp add: steps)
  ultimately show ?thesis
    using steps assms by simp
qed

theorem aqi_history_last_20_witness:
  "length (map (\<lambda>n. (''12:00:00'', PNum (real n))) [0..<25]) = 25 \<and>
   aqi_history_runs [] (map (\<lambda>n. (''12:00:00'', PNum (real n))) [0..<25]) =
     map (\<lambda>n. PDict [(''time'', PStr ''12:00:00''), (''aqi'', PNum (real n))]) [5..<25] \<and>
   length (aqi_history_runs [] (map (\<lambda>n. (''12:00:00'', PNum (real n))) [0..<25])) = 20 \<and>
   length (aqi_history_runs [] (take 7 (map (\<lambda>n. (''12:00:00'', PNum (real n))) [0..<25]))) = 7 \<and>
   aqi_history_runs [] (take 21 (map (\<lambda>n. (''12:00:00'', PNum (real n))) [0..<25])) =
     map (\<lambda>n. PDict [(''time'', PStr ''12:00:00''), (''aqi'', PNum (real n))]) [1..<21]"
proof -
  let ?runs = "map (\<lambda>n. (''12:00:00'', PNum (real n))) [0..<25]"
  let ?entry = "\<lambda>(t, a). PDict [(''time'', PStr t), (''aqi'', a)]"
  have len: "length ?runs = 25"
    by simp
  note all = aqi_history_last_20 [OF len]
  have "aqi_history_runs [] ?runs = map ?entry (drop 5 ?runs)"
    using all by blast
  moreover have "map ?entry (drop 5 ?runs) =
      map (\<lambda>n. PDict [(''time'', PStr ''12:00:00''), (''aqi'', PNum (real n))]) [5..<25]"
    by (simp add: drop_map)
  ultimately have final: "aqi_history_runs [] ?runs =
      map (\<lambda>n. PDict [(''time'', PStr ''12:00:00''), (''aqi'', PNum (real n))]) [5..<25]"
    by (rule trans)
  have n20: "length (aqi_history_runs [] ?runs) = 20"
    using all by blast
  have "length (aqi_history_runs [] (take 7 ?runs)) = min 7 20"
    using all by (elim conjE allE [of _ 7]) simp
  then have k7: "length (aqi_history_runs [] (take 7 ?runs)) = 7"
    by simp
  have "aqi_history_runs [] (take 21 ?runs) = map ?entry (drop (21 - 20) (take 21 ?runs))"
    using all by (elim conjE allE [of _ 21]) simp
  moreover have "map ?entry (drop (21 - 20) (take 21 ?runs)) =
      map (\<lambda>n. PDict [(''time'', PStr ''12:00:00''), (''aqi'', PNum (real n))]) [1..<21]"
    by (simp add: drop_map take_map)
  ultimately have k21: "aqi_history_runs [] (take 21 ?runs) =
      map (\<lambda>n. PDict [(''time'', PStr ''12:00:00''), (''aqi'', PNum (real n))]) [1..<21]"
    by (rule trans)
  show ?thesis
    using len final n20 k7 k21 by (intro conjI)
qed

end
